theory Spec2Isabelle
  imports Main "HOL-Library.Sublist"
begin

section \<open>Data model\<close>

text \<open>
  The dashboard declares the item shape (\<^verbatim>\<open>interface Item\<close> in \<^verbatim>\<open>index.tsx\<close>): five
  required fields, three optional ones and the identity. The new-item draft is
  \<^verbatim>\<open>Omit<Item, "id">\<close>, so the draft is the parent record and the item extends it by the
  identity. The field \<^verbatim>\<open>id\<close> is called \<open>id_num\<close> here, since \<open>id\<close> is the identity function
  of HOL. Quantities are integers; strings are lists of characters.

  In the records that the dashboard holds and the store keeps, a field without a value is
  \<open>None\<close>: \<^verbatim>\<open>undefined\<close> or \<^verbatim>\<open>null\<close> in an item, SQL \<^verbatim>\<open>NULL\<close> in a stored row. That is
  so for the three optional fields and also for \<^verbatim>\<open>name\<close>, \<^verbatim>\<open>description\<close> and
  \<^verbatim>\<open>barcode\<close>, which the search guards against \<^verbatim>\<open>null\<close>. The search, the toggle and
  \<^verbatim>\<open>PUT /items/:id\<close>, which stores both as \<^verbatim>\<open>NULL\<close>, do not tell \<^verbatim>\<open>undefined\<close> from
  \<^verbatim>\<open>null\<close>.

  The body of \<^verbatim>\<open>POST /items\<close> is read with defaults, which apply to a member that is left
  out and not to one that is \<^verbatim>\<open>null\<close>. In such a body the three members with a default are
  therefore of type \<open>member\<close>, and the record is polymorphic in the types of these three
  fields.
\<close>

datatype 'a member =
    Absent
  | Null
  | Given 'a

record ('b, 'n) draft =
  name :: "string option"
  description :: "string option"
  barcode :: "string option"
  quantity :: int
  photo_url :: string
  missing :: 'b
  damaged :: 'b
  "notes" :: 'n

type_synonym new_item = "(bool option, string option) draft"

type_synonym 'a new_item_scheme = "(bool option, string option, 'a) draft_scheme"

type_synonym post_body = "(bool member, string member) draft"

type_synonym 'a post_body_scheme = "(bool member, string member, 'a) draft_scheme"

record item = "(bool option, string option) draft" +
  id_num :: int

text \<open>JavaScript truthiness of an optional boolean: \<^verbatim>\<open>undefined\<close> and \<^verbatim>\<open>null\<close> are falsy.\<close>

definition truthy :: "bool option \<Rightarrow> bool" where
  "truthy v = (case v of None \<Rightarrow> False | Some b \<Rightarrow> b)"

section \<open>The API service (\<^verbatim>\<open>inventory_api.js\<close>)\<close>

subsection \<open>The store\<close>

text \<open>
  The table \<^verbatim>\<open>items\<close> is a list of rows. The schema is not part of the repository, so
  the assignment of identities is taken from the data model of the specification.
\<close>

record db =
  rows :: "item list"
  next_id :: int

text \<open>\<^verbatim>\<open>SELECT * FROM items\<close>\<close>

definition sql_select_items :: "db \<Rightarrow> item list" where
  "sql_select_items d = rows d"

text \<open>
  \<^verbatim>\<open>UPDATE items SET name = $1, ..., notes = $8 WHERE id = $9 RETURNING *\<close>:
  every row with the given identity gets the eight values; the statement returns the
  rows it updated.
\<close>

definition replace_fields :: "'a new_item_scheme \<Rightarrow> item \<Rightarrow> item" where
  "replace_fields b r =
     r\<lparr>name := name b, description := description b, barcode := barcode b,
       quantity := quantity b, photo_url := photo_url b, missing := missing b,
       damaged := damaged b, notes := notes b\<rparr>"

definition sql_update_item :: "db \<Rightarrow> 'a new_item_scheme \<Rightarrow> int \<Rightarrow> item list \<times> db" where
  "sql_update_item d b i =
     (let rows' = map (\<lambda>r. if id_num r = i then replace_fields b r else r) (rows d)
      in (filter (\<lambda>r. id_num r = i) rows', d\<lparr>rows := rows'\<rparr>))"

text \<open>\<^verbatim>\<open>UPDATE items SET quantity = quantity + $1 WHERE id = $2 RETURNING *\<close>\<close>

definition sql_update_quantity :: "db \<Rightarrow> int \<Rightarrow> int \<Rightarrow> item list \<times> db" where
  "sql_update_quantity d delta i =
     (let rows' = map (\<lambda>r. if id_num r = i then r\<lparr>quantity := quantity r + delta\<rparr> else r) (rows d)
      in (filter (\<lambda>r. id_num r = i) rows', d\<lparr>rows := rows'\<rparr>))"

text \<open>
  Modelled from the spec: the table definition (the column that generates \<^verbatim>\<open>id\<close>) is
  missing from the sources; the identity is "assigned by the store on creation", here the
  next value of a counter kept with the table.

  \<^verbatim>\<open>INSERT INTO items (name, ..., notes) VALUES ($1, ..., $8) RETURNING *\<close>
\<close>

definition sql_insert_item :: "db \<Rightarrow> new_item \<Rightarrow> item list \<times> db" where
  "sql_insert_item d v =
     (let row = draft.extend v (item.fields (next_id d))
      in ([row], d\<lparr>rows := rows d @ [row], next_id := next_id d + 1\<rparr>))"

text \<open>
  \<^verbatim>\<open>pool.query\<close> either rejects with an error that carries a message, and then the
  table is as it was, or runs its statement. The argument \<open>fault\<close> of each handler says
  which: \<open>Some msg\<close> is the rejection.
\<close>

definition pool_query :: "string option \<Rightarrow> 'a \<Rightarrow> string + 'a" where
  "pool_query fault run = (case fault of Some msg \<Rightarrow> Inl msg | None \<Rightarrow> Inr run)"

subsection \<open>Responses\<close>

datatype payload =
    ItemJson item
  | ItemsJson "item list"
  | ErrorJson string
  | SuccessJson "item option"
  | NoJson

record response =
  status :: nat
  body :: payload

subsection \<open>Handlers\<close>

text \<open>
  Each handler takes the store and returns the response with the store afterwards. The
  \<^verbatim>\<open>console\<close> output of the service is no part of either and is left out.
\<close>

definition get_items :: "string option \<Rightarrow> db \<Rightarrow> response \<times> db" where
  "get_items fault d =
     (case pool_query fault (sql_select_items d) of
        Inl msg \<Rightarrow> (\<lparr>status = 500, body = ErrorJson msg\<rparr>, d)
      | Inr result_rows \<Rightarrow> (\<lparr>status = 200, body = ItemsJson result_rows\<rparr>, d))"

definition put_items :: "string option \<Rightarrow> db \<Rightarrow> int \<Rightarrow> 'a new_item_scheme \<Rightarrow> response \<times> db" where
  "put_items fault d i b =
     (case pool_query fault (sql_update_item d b i) of
        Inl msg \<Rightarrow> (\<lparr>status = 500, body = ErrorJson msg\<rparr>, d)
      | Inr (result_rows, d') \<Rightarrow>
          (case result_rows of
             [] \<Rightarrow> (\<lparr>status = 404, body = ErrorJson ''Item not found''\<rparr>, d')
           | r # _ \<Rightarrow> (\<lparr>status = 200, body = ItemJson r\<rparr>, d')))"

text \<open>
  \<^verbatim>\<open>res.json({ success: true, item: result.rows[0] })\<close>: with no row the member
  \<^verbatim>\<open>item\<close> is \<^verbatim>\<open>undefined\<close>, which is \<open>SuccessJson None\<close>.
\<close>

definition update_quantity :: "string option \<Rightarrow> db \<Rightarrow> int \<Rightarrow> int \<Rightarrow> response \<times> db" where
  "update_quantity fault d i delta =
     (case pool_query fault (sql_update_quantity d delta i) of
        Inl msg \<Rightarrow> (\<lparr>status = 500, body = ErrorJson msg\<rparr>, d)
      | Inr (result_rows, d') \<Rightarrow>
          (\<lparr>status = 200,
            body = SuccessJson (case result_rows of [] \<Rightarrow> None | r # _ \<Rightarrow> Some r)\<rparr>, d'))"

text \<open>
  The destructuring of \<^verbatim>\<open>req.body\<close> in \<^verbatim>\<open>POST /items\<close>, with its three defaults
  \<^verbatim>\<open>missing = false, damaged = false, notes = ""\<close>. A default stands in for a member
  that is \<^verbatim>\<open>undefined\<close>; a \<^verbatim>\<open>null\<close> stays \<^verbatim>\<open>null\<close> and is stored as \<^verbatim>\<open>NULL\<close>.
\<close>

definition with_default :: "'a \<Rightarrow> 'a member \<Rightarrow> 'a option" where
  "with_default dflt m = (case m of Absent \<Rightarrow> Some dflt | Null \<Rightarrow> None | Given v \<Rightarrow> Some v)"

definition post_values :: "'a post_body_scheme \<Rightarrow> new_item" where
  "post_values b =
     \<lparr>name = name b, description = description b, barcode = barcode b,
      quantity = quantity b, photo_url = photo_url b,
      missing = with_default False (missing b),
      damaged = with_default False (damaged b),
      notes = with_default [] (notes b)\<rparr>"

definition post_items :: "string option \<Rightarrow> db \<Rightarrow> 'a post_body_scheme \<Rightarrow> response \<times> db" where
  "post_items fault d b =
     (case pool_query fault (sql_insert_item d (post_values b)) of
        Inl msg \<Rightarrow> (\<lparr>status = 500, body = ErrorJson msg\<rparr>, d)
      | Inr (result_rows, d') \<Rightarrow>
          (\<lparr>status = 201,
            body = (case result_rows of [] \<Rightarrow> NoJson | r # _ \<Rightarrow> ItemJson r)\<rparr>, d'))"

section \<open>The dashboard (\<^verbatim>\<open>index.tsx\<close>)\<close>

subsection \<open>View state\<close>

text \<open>The four \<^verbatim>\<open>useState\<close> cells of \<^verbatim>\<open>InventoryDashboard\<close> and their initial values.\<close>

record client =
  items :: "item list"
  search :: string
  editingItem :: "item option"
  newItem :: new_item

definition emptyDraft :: new_item where
  "emptyDraft =
     \<lparr>name = Some [], description = Some [], barcode = Some [], quantity = 0, photo_url = [],
      missing = Some False, damaged = Some False, notes = Some []\<rparr>"

definition initialClient :: client where
  "initialClient = \<lparr>items = [], search = [], editingItem = None, newItem = emptyDraft\<rparr>"

subsection \<open>Requests and what comes back\<close>

text \<open>
  A call of \<^verbatim>\<open>fetch\<close> is a request (method, path and JSON body) handed to the outside
  world \<open>'w\<close>, which answers with a rejected promise or a response and may change. The
  handlers below take that world as a function, so they can be run against the API
  service or against any other behaviour of the network.
\<close>

datatype request =
    GetItems
  | PostItem new_item
  | PutItem int item

datatype fetch_result =
    FetchRejected string
  | FetchResolved response

type_synonym 'w fetch = "request \<Rightarrow> 'w \<Rightarrow> fetch_result \<times> 'w"

text \<open>\<^verbatim>\<open>res.ok\<close>: the status is in the range 200-299.\<close>

definition ok :: "response \<Rightarrow> bool" where
  "ok res = (200 \<le> status res \<and> status res \<le> 299)"

text \<open>
  What a \<^verbatim>\<open>catch\<close> block receives: the rejection of \<^verbatim>\<open>fetch\<close>, the
  \<^verbatim>\<open>Error("HTTP error! Status: ...")\<close> thrown for a response that is not ok, or a body
  that is not of the shape the dashboard reads it as. The last case is outside the types
  of \<^verbatim>\<open>index.tsx\<close>, which reads every ok body as \<^verbatim>\<open>Item\<close> or \<^verbatim>\<open>Item[]\<close>; the model stops
  there as for a body that does not parse.
\<close>

datatype thrown =
    FetchError string
  | HttpError nat
  | BadBody

datatype logged =
    LoggedText payload
  | LoggedError thrown

text \<open>What a handler does besides changing the view state, in order.\<close>

datatype event =
    Fetch request
  | ConsoleError string logged

subsection \<open>Loading, updating, creating\<close>

definition fetchItems :: "'w fetch \<Rightarrow> client \<Rightarrow> 'w \<Rightarrow> client \<times> 'w \<times> event list" where
  "fetchItems fetch c w =
     (let (fr, w') = fetch GetItems w in
      case fr of
        FetchRejected e \<Rightarrow>
          (c, w', [Fetch GetItems,
                   ConsoleError ''Error fetching items:'' (LoggedError (FetchError e))])
      | FetchResolved res \<Rightarrow>
          if \<not> ok res then
            (c, w', [Fetch GetItems,
                     ConsoleError ''Error fetching items:'' (LoggedError (HttpError (status res)))])
          else
            (case body res of
               ItemsJson data \<Rightarrow> (c\<lparr>items := data\<rparr>, w', [Fetch GetItems])
             | _ \<Rightarrow>
               (c, w', [Fetch GetItems,
                        ConsoleError ''Error fetching items:'' (LoggedError BadBody)])))"

definition updateItem :: "'w fetch \<Rightarrow> item \<Rightarrow> client \<Rightarrow> 'w \<Rightarrow> client \<times> 'w \<times> event list" where
  "updateItem fetch updatedItem c w =
     (let req = PutItem (id_num updatedItem) updatedItem;
          (fr, w') = fetch req w in
      case fr of
        FetchRejected e \<Rightarrow>
          (c, w', [Fetch req, ConsoleError ''Error in updateItem:'' (LoggedError (FetchError e))])
      | FetchResolved res \<Rightarrow>
          if \<not> ok res then
            (c, w', [Fetch req,
                     ConsoleError ''Error updating item:'' (LoggedText (body res)),
                     ConsoleError ''Error in updateItem:'' (LoggedError (HttpError (status res)))])
          else
            (case body res of
               ItemJson updatedData \<Rightarrow>
                 (c\<lparr>items := map (\<lambda>item. if id_num item = id_num updatedData
                                         then updatedData else item) (items c),
                    editingItem := None\<rparr>, w', [Fetch req])
             | _ \<Rightarrow>
               (c, w', [Fetch req,
                        ConsoleError ''Error in updateItem:'' (LoggedError BadBody)])))"

datatype status_type = Missing | Damaged

text \<open>\<^verbatim>\<open>item[type]\<close>\<close>

definition flag :: "status_type \<Rightarrow> 'a new_item_scheme \<Rightarrow> bool option" where
  "flag ty item = (case ty of Missing \<Rightarrow> missing item | Damaged \<Rightarrow> damaged item)"

text \<open>
  The object literal of \<^verbatim>\<open>handleMissingOrDamaged\<close>:
  \<^verbatim>\<open>{...item, [type]: newValue, ...(type === "missing" ? {damaged: false} : {missing: false}),
     notes: newValue ? "Updated status" : ""}\<close> with \<^verbatim>\<open>newValue = !item[type]\<close>.
\<close>

definition toggledItem :: "item \<Rightarrow> status_type \<Rightarrow> item" where
  "toggledItem item ty =
     (let newValue = \<not> truthy (flag ty item);
          marked = (case ty of
                      Missing \<Rightarrow> item\<lparr>missing := Some newValue, damaged := Some False\<rparr>
                    | Damaged \<Rightarrow> item\<lparr>damaged := Some newValue, missing := Some False\<rparr>)
      in marked\<lparr>notes := Some (if newValue then ''Updated status'' else [])\<rparr>)"

definition handleMissingOrDamaged ::
  "'w fetch \<Rightarrow> int \<Rightarrow> status_type \<Rightarrow> client \<Rightarrow> 'w \<Rightarrow> client \<times> 'w \<times> event list" where
  "handleMissingOrDamaged fetch i ty c w =
     (case find (\<lambda>item. id_num item = i) (items c) of
        None \<Rightarrow> (c, w, [])
      | Some item \<Rightarrow> updateItem fetch (toggledItem item ty) c w)"

definition addItem :: "'w fetch \<Rightarrow> client \<Rightarrow> 'w \<Rightarrow> client \<times> 'w \<times> event list" where
  "addItem fetch c w =
     (let req = PostItem (newItem c);
          (fr, w') = fetch req w in
      case fr of
        FetchRejected e \<Rightarrow>
          (c, w', [Fetch req, ConsoleError ''Error in addItem:'' (LoggedError (FetchError e))])
      | FetchResolved res \<Rightarrow>
          if \<not> ok res then
            (c, w', [Fetch req,
                     ConsoleError ''Error adding item:'' (LoggedText (body res)),
                     ConsoleError ''Error in addItem:'' (LoggedError (HttpError (status res)))])
          else
            (case body res of
               ItemJson createdItem \<Rightarrow>
                 (c\<lparr>items := items c @ [createdItem], newItem := emptyDraft\<rparr>, w', [Fetch req])
             | _ \<Rightarrow>
               (c, w', [Fetch req,
                        ConsoleError ''Error in addItem:'' (LoggedError BadBody)])))"

subsection \<open>Search\<close>

text \<open>
  \<^verbatim>\<open>String.prototype.toLowerCase\<close> is a built-in of the language and no code of the
  repository: the search takes it as its first argument.
\<close>

text \<open>\<^verbatim>\<open>String.prototype.includes\<close>: \<open>q\<close> starts at some position of \<open>s\<close>.\<close>

fun includes_str :: "string \<Rightarrow> string \<Rightarrow> bool" where
  "includes_str [] q = (q = [])"
| "includes_str (ch # s) q = (prefix q (ch # s) \<or> includes_str s q)"

text \<open>\<^verbatim>\<open>field?.toString().toLowerCase() || ""\<close>\<close>

definition searchText :: "(string \<Rightarrow> string) \<Rightarrow> string option \<Rightarrow> string" where
  "searchText toLowerCase field =
     (case map_option toLowerCase field of
        None \<Rightarrow> []
      | Some s \<Rightarrow> if s = [] then [] else s)"

definition filteredItems :: "(string \<Rightarrow> string) \<Rightarrow> client \<Rightarrow> item list" where
  "filteredItems toLowerCase c =
     filter (\<lambda>item.
        list_ex (\<lambda>field. includes_str field (toLowerCase (search c)))
          (map (searchText toLowerCase)
             [name item, description item, barcode item, notes item]))
       (items c)"

subsection \<open>Form fields\<close>

text \<open>
  The \<^verbatim>\<open>onChange\<close> handlers of the two forms. The quantity fields pass the number that
  \<^verbatim>\<open>Number(e.target.value)\<close> yields through \<^verbatim>\<open>Math.max(0, ...)\<close>. The handlers of the edit
  form exist only while an item is being edited.
\<close>

definition setNewName :: "string \<Rightarrow> client \<Rightarrow> client" where
  "setNewName v c = c\<lparr>newItem := (newItem c)\<lparr>name := Some v\<rparr>\<rparr>"

definition setNewDescription :: "string \<Rightarrow> client \<Rightarrow> client" where
  "setNewDescription v c = c\<lparr>newItem := (newItem c)\<lparr>description := Some v\<rparr>\<rparr>"

definition setNewBarcode :: "string \<Rightarrow> client \<Rightarrow> client" where
  "setNewBarcode v c = c\<lparr>newItem := (newItem c)\<lparr>barcode := Some v\<rparr>\<rparr>"

definition setNewQuantity :: "int \<Rightarrow> client \<Rightarrow> client" where
  "setNewQuantity v c = c\<lparr>newItem := (newItem c)\<lparr>quantity := max 0 v\<rparr>\<rparr>"

definition setNewPhotoUrl :: "string \<Rightarrow> client \<Rightarrow> client" where
  "setNewPhotoUrl v c = c\<lparr>newItem := (newItem c)\<lparr>photo_url := v\<rparr>\<rparr>"

definition setEditName :: "string \<Rightarrow> client \<Rightarrow> client" where
  "setEditName v c = c\<lparr>editingItem := map_option (\<lambda>e. e\<lparr>name := Some v\<rparr>) (editingItem c)\<rparr>"

definition setEditDescription :: "string \<Rightarrow> client \<Rightarrow> client" where
  "setEditDescription v c =
     c\<lparr>editingItem := map_option (\<lambda>e. e\<lparr>description := Some v\<rparr>) (editingItem c)\<rparr>"

definition setEditBarcode :: "string \<Rightarrow> client \<Rightarrow> client" where
  "setEditBarcode v c = c\<lparr>editingItem := map_option (\<lambda>e. e\<lparr>barcode := Some v\<rparr>) (editingItem c)\<rparr>"

definition setEditQuantity :: "int \<Rightarrow> client \<Rightarrow> client" where
  "setEditQuantity v c =
     c\<lparr>editingItem := map_option (\<lambda>e. e\<lparr>quantity := max 0 v\<rparr>) (editingItem c)\<rparr>"

definition setEditNotes :: "string \<Rightarrow> client \<Rightarrow> client" where
  "setEditNotes v c = c\<lparr>editingItem := map_option (\<lambda>e. e\<lparr>notes := Some v\<rparr>) (editingItem c)\<rparr>"

subsection \<open>Buttons\<close>

text \<open>
  \<^verbatim>\<open>setEditingItem(item)\<close> on a card, \<^verbatim>\<open>setEditingItem(null)\<close> on Cancel and
  \<^verbatim>\<open>setSearch(e.target.value)\<close>.
\<close>

definition startEditing :: "item \<Rightarrow> client \<Rightarrow> client" where
  "startEditing item c = c\<lparr>editingItem := Some item\<rparr>"

definition cancelEditing :: "client \<Rightarrow> client" where
  "cancelEditing c = c\<lparr>editingItem := None\<rparr>"

definition setSearch :: "string \<Rightarrow> client \<Rightarrow> client" where
  "setSearch v c = c\<lparr>search := v\<rparr>"

text \<open>
  The edit form is rendered inside each shown card whose identity is the one of the item
  being edited: \<^verbatim>\<open>editingItem?.id === item.id\<close>.
\<close>

definition editFormShown :: "(string \<Rightarrow> string) \<Rightarrow> client \<Rightarrow> bool" where
  "editFormShown toLowerCase c =
     (case editingItem c of
        None \<Rightarrow> False
      | Some e \<Rightarrow> list_ex (\<lambda>item. id_num item = id_num e) (filteredItems toLowerCase c))"

section \<open>The dashboard in front of the API service\<close>

text \<open>
  The world of the dashboard's \<^verbatim>\<open>fetch\<close> is the store behind the API service. A request
  either does not reach the service (the promise rejects) or is routed to its handler,
  whose store query may itself be rejected.
\<close>

datatype net =
    Unreachable string
  | Reachable "string option"

text \<open>
  \<^verbatim>\<open>JSON.stringify(newItem)\<close>: a field that is \<^verbatim>\<open>undefined\<close> is left out of the body. The
  draft is built by the dashboard alone, from its initial value and the form fields, and
  its type has no \<^verbatim>\<open>null\<close>.
\<close>

text \<open>
  The body of a \<^verbatim>\<open>PUT\<close> is handed over as the record itself: \<^verbatim>\<open>PUT /items/:id\<close> has no
  defaults and stores a member that is left out as it stores \<^verbatim>\<open>null\<close>.
\<close>

definition stringify :: "'a new_item_scheme \<Rightarrow> post_body" where
  "stringify b =
     \<lparr>name = name b, description = description b, barcode = barcode b,
      quantity = quantity b, photo_url = photo_url b,
      missing = (case missing b of None \<Rightarrow> Absent | Some m \<Rightarrow> Given m),
      damaged = (case damaged b of None \<Rightarrow> Absent | Some m \<Rightarrow> Given m),
      notes = (case notes b of None \<Rightarrow> Absent | Some n \<Rightarrow> Given n)\<rparr>"

definition api :: "net \<Rightarrow> db fetch" where
  "api net req d =
     (case net of
        Unreachable e \<Rightarrow> (FetchRejected e, d)
      | Reachable fault \<Rightarrow>
          (case req of
             GetItems \<Rightarrow> (let (res, d') = get_items fault d in (FetchResolved res, d'))
           | PostItem b \<Rightarrow> (let (res, d') = post_items fault d (stringify b) in (FetchResolved res, d'))
           | PutItem i b \<Rightarrow> (let (res, d') = put_items fault d i b in (FetchResolved res, d'))))"

text \<open>
  What a user can do on the page. A card is addressed by its position among the shown
  items; the fields and buttons of the edit form exist only while the form is shown.
\<close>

datatype action =
    TypeNewName string
  | TypeNewDescription string
  | TypeNewBarcode string
  | TypeNewQuantity int
  | TypeNewPhotoUrl string
  | ClickAddItem
  | TypeSearch string
  | ClickEdit nat
  | ClickMissing nat
  | ClickDamaged nat
  | TypeEditName string
  | TypeEditDescription string
  | TypeEditBarcode string
  | TypeEditQuantity int
  | TypeEditNotes string
  | ClickSave
  | ClickCancel

definition dropEvents :: "client \<times> db \<times> event list \<Rightarrow> client \<times> db" where
  "dropEvents r = (fst r, fst (snd r))"

definition onCard ::
  "(string \<Rightarrow> string) \<Rightarrow> nat \<Rightarrow> (item \<Rightarrow> client \<times> db) \<Rightarrow> client \<times> db \<Rightarrow> client \<times> db" where
  "onCard toLowerCase k f s =
     (if k < length (filteredItems toLowerCase (fst s))
      then f (filteredItems toLowerCase (fst s) ! k) else s)"

definition onEditForm ::
  "(string \<Rightarrow> string) \<Rightarrow> (item \<Rightarrow> client \<times> db) \<Rightarrow> client \<times> db \<Rightarrow> client \<times> db" where
  "onEditForm toLowerCase f s =
     (case editingItem (fst s) of
        None \<Rightarrow> s
      | Some e \<Rightarrow> if editFormShown toLowerCase (fst s) then f e else s)"

fun perform ::
  "(string \<Rightarrow> string) \<Rightarrow> net \<Rightarrow> action \<Rightarrow> client \<times> db \<Rightarrow> client \<times> db" where
  "perform toLowerCase net (TypeNewName v) (c, d) = (setNewName v c, d)"
| "perform toLowerCase net (TypeNewDescription v) (c, d) = (setNewDescription v c, d)"
| "perform toLowerCase net (TypeNewBarcode v) (c, d) = (setNewBarcode v c, d)"
| "perform toLowerCase net (TypeNewQuantity v) (c, d) = (setNewQuantity v c, d)"
| "perform toLowerCase net (TypeNewPhotoUrl v) (c, d) = (setNewPhotoUrl v c, d)"
| "perform toLowerCase net ClickAddItem (c, d) = dropEvents (addItem (api net) c d)"
| "perform toLowerCase net (TypeSearch v) (c, d) = (setSearch v c, d)"
| "perform toLowerCase net (ClickEdit k) (c, d) = onCard toLowerCase k (\<lambda>item. (startEditing item c, d)) (c, d)"
| "perform toLowerCase net (ClickMissing k) (c, d) =
     onCard toLowerCase k (\<lambda>item. dropEvents (handleMissingOrDamaged (api net) (id_num item) Missing c d)) (c, d)"
| "perform toLowerCase net (ClickDamaged k) (c, d) =
     onCard toLowerCase k (\<lambda>item. dropEvents (handleMissingOrDamaged (api net) (id_num item) Damaged c d)) (c, d)"
| "perform toLowerCase net (TypeEditName v) (c, d) = onEditForm toLowerCase (\<lambda>e. (setEditName v c, d)) (c, d)"
| "perform toLowerCase net (TypeEditDescription v) (c, d) = onEditForm toLowerCase (\<lambda>e. (setEditDescription v c, d)) (c, d)"
| "perform toLowerCase net (TypeEditBarcode v) (c, d) = onEditForm toLowerCase (\<lambda>e. (setEditBarcode v c, d)) (c, d)"
| "perform toLowerCase net (TypeEditQuantity v) (c, d) = onEditForm toLowerCase (\<lambda>e. (setEditQuantity v c, d)) (c, d)"
| "perform toLowerCase net (TypeEditNotes v) (c, d) = onEditForm toLowerCase (\<lambda>e. (setEditNotes v c, d)) (c, d)"
| "perform toLowerCase net ClickSave (c, d) = onEditForm toLowerCase (\<lambda>e. dropEvents (updateItem (api net) e c d)) (c, d)"
| "perform toLowerCase net ClickCancel (c, d) = onEditForm toLowerCase (\<lambda>e. (cancelEditing c, d)) (c, d)"

text \<open>A session: one action after the other, each with the behaviour of the network at its time.\<close>

fun run ::
  "(string \<Rightarrow> string) \<Rightarrow> (net \<times> action) list \<Rightarrow> client \<times> db \<Rightarrow> client \<times> db" where
  "run toLowerCase [] s = s"
| "run toLowerCase (step # steps) s =
     run toLowerCase steps (perform toLowerCase (fst step) (snd step) s)"

section \<open>Properties named by the specification\<close>

text \<open>The flag that a toggle of \<open>ty\<close> does not address.\<close>

definition other :: "status_type \<Rightarrow> status_type" where
  "other ty = (case ty of Missing \<Rightarrow> Damaged | Damaged \<Rightarrow> Missing)"

text \<open>
  A fetch has failed for the dashboard when the promise rejects or the response is not
  ok; a handler has then only logged when, after its one request, every event is a
  \<^verbatim>\<open>console.error\<close>.
\<close>

definition failed :: "fetch_result \<Rightarrow> bool" where
  "failed fr = (case fr of FetchRejected e \<Rightarrow> True | FetchResolved res \<Rightarrow> \<not> ok res)"

definition is_log :: "event \<Rightarrow> bool" where
  "is_log ev = (case ev of Fetch req \<Rightarrow> False | ConsoleError label what \<Rightarrow> True)"

definition one_request_then_logs :: "request \<Rightarrow> event list \<Rightarrow> bool" where
  "one_request_then_logs req evs =
     (case evs of
        [] \<Rightarrow> False
      | ev # logs \<Rightarrow> ev = Fetch req \<and> logs \<noteq> [] \<and> list_all is_log logs)"

text \<open>At most one of the two status flags is set.\<close>

definition exclusive :: "'a new_item_scheme \<Rightarrow> bool" where
  "exclusive r = (\<not> (truthy (missing r) \<and> truthy (damaged r)))"

text \<open>
  The same for a view state, for the records whose identity is in \<open>S\<close>: the listed items,
  the item being edited, and the draft, which has no identity yet.
\<close>

definition exclusive_within :: "int set \<Rightarrow> client \<Rightarrow> bool" where
  "exclusive_within S c =
     (list_all (\<lambda>r. id_num r \<in> S \<longrightarrow> exclusive r) (items c)
      \<and> (case editingItem c of None \<Rightarrow> True | Some e \<Rightarrow> id_num e \<in> S \<longrightarrow> exclusive e)
      \<and> exclusive (newItem c))"

text \<open>The actions that only fill in a form field.\<close>

definition typing :: "action \<Rightarrow> bool" where
  "typing a =
     (case a of
        TypeNewName v \<Rightarrow> True | TypeNewDescription v \<Rightarrow> True | TypeNewBarcode v \<Rightarrow> True
      | TypeNewQuantity n \<Rightarrow> True | TypeNewPhotoUrl v \<Rightarrow> True
      | TypeEditName v \<Rightarrow> True | TypeEditDescription v \<Rightarrow> True | TypeEditBarcode v \<Rightarrow> True
      | TypeEditQuantity n \<Rightarrow> True | TypeEditNotes v \<Rightarrow> True
      | _ \<Rightarrow> False)"

definition same_flags :: "'a new_item_scheme \<Rightarrow> 'b new_item_scheme \<Rightarrow> bool" where
  "same_flags r r' = (missing r' = missing r \<and> damaged r' = damaged r)"

text \<open>
  The words of the specification for the search: a field contains the query as a
  substring when case is ignored, that is, the field in lower case contains the query in
  lower case; a field that is \<^verbatim>\<open>null\<close> or \<^verbatim>\<open>undefined\<close> counts as the empty string.
\<close>

definition contains_ignoring_case :: "(string \<Rightarrow> string) \<Rightarrow> string \<Rightarrow> string \<Rightarrow> bool" where
  "contains_ignoring_case toLowerCase field q =
     (\<exists>pre post. toLowerCase field = pre @ toLowerCase q @ post)"



text \<open>
  The identities handed out so far are distinct and below the counter of the store, as
  they are when every row was created by \<^verbatim>\<open>POST /items\<close>.
\<close>

definition ids_assigned :: "db \<Rightarrow> bool" where
  "ids_assigned d =
     (distinct (map id_num (rows d)) \<and> list_all (\<lambda>r. id_num r < next_id d) (rows d))"

section \<open>Example data\<close>

definition bolt :: item where
  "bolt = \<lparr>name = Some ''Bolt M8'', description = Some ''Steel bolt'',
            barcode = Some ''ABC-001'', quantity = 5, photo_url = ''bolt.png'',
            missing = Some False, damaged = Some True, notes = Some [], id_num = 7\<rparr>"

definition crate :: item where
  "crate = \<lparr>name = Some ''Crate'', description = Some ''Wooden crate'',
             barcode = Some ''XYZ-002'', quantity = 12, photo_url = ''crate.png'',
             missing = None, damaged = None, notes = None, id_num = 9\<rparr>"

definition nameless :: item where
  "nameless = \<lparr>name = None, description = None, barcode = None, quantity = 1,
                photo_url = [], missing = None, damaged = None, notes = None, id_num = 11\<rparr>"

definition shelf :: db where
  "shelf = \<lparr>rows = [bolt, crate], next_id = 10\<rparr>"

definition washer :: new_item where
  "washer = \<lparr>name = Some ''Washer'', description = Some ''Flat washer'',
              barcode = Some ''abc-777'', quantity = - 4, photo_url = ''washer.png'',
              missing = None, damaged = Some True, notes = None\<rparr>"

text \<open>A request body with one member \<^verbatim>\<open>null\<close>, one left out and one given.\<close>

definition gasket :: post_body where
  "gasket = \<lparr>name = Some ''Gasket'', description = None, barcode = Some ''G-5'',
              quantity = 3, photo_url = ''gasket.png'',
              missing = Null, damaged = Absent, notes = Given ''spare''\<rparr>"

definition board :: client where
  "board = \<lparr>items = [bolt, crate], search = ''aBc'', editingItem = Some crate,
             newItem = washer\<rparr>"

text \<open>
  The examples are run with a lowering of the letters A-Z, which is what
  \<^verbatim>\<open>toLowerCase\<close> does on the ASCII strings they use.
\<close>

definition lowerAsciiChar :: "char \<Rightarrow> char" where
  "lowerAsciiChar ch =
     (let n = (of_char ch :: nat) in if 65 \<le> n \<and> n \<le> 90 then char_of (n + 32) else ch)"

definition lowerAscii :: "string \<Rightarrow> string" where
  "lowerAscii s = map lowerAsciiChar s"

section \<open>The API service: what the handlers do\<close>


lemma sql_update_item_returning:
  "fst (sql_update_item d b i) = map (replace_fields b) (filter (\<lambda>r. id_num r = i) (rows d))"
  by (simp add: sql_update_item_def Let_def filter_map comp_def replace_fields_def) 

lemma sql_update_item_rows:
  "rows (snd (sql_update_item d b i)) =
     map (\<lambda>r. if id_num r = i then replace_fields b r else r) (rows d)"
  by (simp add: sql_update_item_def Let_def)

lemma replace_fields_id [simp]: "id_num (replace_fields b r) = id_num r"
  by (simp add: replace_fields_def)

lemma replace_fields_truncate [simp]: "draft.truncate (replace_fields b r) = draft.truncate b"
  by (simp add: replace_fields_def draft.truncate_def)

lemma sql_update_item_no_match:
  "\<forall>r\<in>set (rows d). id_num r \<noteq> i \<Longrightarrow> sql_update_item d b i = ([], d)"
  by (simp add: sql_update_item_def Let_def map_idI filter_empty_conv)

lemma put_items_no_match:
  assumes "\<forall>r\<in>set (rows d). id_num r \<noteq> i"
  shows "put_items None d i b = (\<lparr>status = 404, body = ErrorJson ''Item not found''\<rparr>, d)"
  by (simp add: put_items_def pool_query_def sql_update_item_no_match [OF assms])

lemma put_items_match:
  assumes "\<exists>r\<in>set (rows d). id_num r = i"
  shows "\<exists>u. fst (put_items None d i b) = \<lparr>status = 200, body = ItemJson u\<rparr>
           \<and> id_num u = i \<and> draft.truncate u = draft.truncate b
           \<and> u \<in> set (rows (snd (put_items None d i b)))"
proof -
  from assms obtain r rs where f: "filter (\<lambda>r. id_num r = i) (rows d) = r # rs"
    by (cases "filter (\<lambda>r. id_num r = i) (rows d)") (auto simp: filter_empty_conv)
  then have "r \<in> set (filter (\<lambda>r. id_num r = i) (rows d))" by simp
  then have ri: "id_num r = i" and rin: "r \<in> set (rows d)" by simp_all
  have ret: "fst (sql_update_item d b i) = replace_fields b r # map (replace_fields b) rs"
    by (simp add: sql_update_item_returning f)
  obtain res d' where sq: "sql_update_item d b i = (res, d')" by (cases "sql_update_item d b i")
  with ret have res: "res = replace_fields b r # map (replace_fields b) rs" by simp
  have d': "rows d' = map (\<lambda>r. if id_num r = i then replace_fields b r else r) (rows d)"
    using sql_update_item_rows [of d b i] sq by simp
  have "replace_fields b r \<in> set (rows d')"
    unfolding d' using rin ri by (simp add: image_iff) (rule bexI [of _ r], simp_all)
  then show ?thesis
    by (simp add: put_items_def pool_query_def sq res ri)
qed

lemma put_items_rows:
  "rows (snd (put_items None d i b)) =
     map (\<lambda>r. if id_num r = i then replace_fields b r else r) (rows d)"
  using sql_update_item_rows [of d b i]
  by (cases "sql_update_item d b i") (simp add: put_items_def pool_query_def split: list.splits)

lemma put_items_rejected:
  "put_items (Some msg) d i b = (\<lparr>status = 500, body = ErrorJson msg\<rparr>, d)"
  by (simp add: put_items_def pool_query_def)

text \<open>
  Claim C3. When the store query of \<^verbatim>\<open>PUT /items/:id\<close> resolves, the response is the 404
  "Item not found" exactly when no stored row has the given identity, and then the store
  is as before. When a row has it, the response is 200 with an updated row of that
  identity whose eight fields are those of the request body, that row is in the store,
  and every stored row of that identity has the eight fields of the body. (A rejected
  query is the 500 of \<open>put_items_rejected\<close>.)
\<close>

theorem put_items_replaces_or_404:
  "(status (fst (put_items None d i b)) = 404) = (\<forall>r\<in>set (rows d). id_num r \<noteq> i)
   \<and> ((\<forall>r\<in>set (rows d). id_num r \<noteq> i) \<longrightarrow>
        put_items None d i b = (\<lparr>status = 404, body = ErrorJson ''Item not found''\<rparr>, d))
   \<and> ((\<exists>r\<in>set (rows d). id_num r = i) \<longrightarrow>
        (\<exists>u. fst (put_items None d i b) = \<lparr>status = 200, body = ItemJson u\<rparr>
           \<and> id_num u = i \<and> draft.truncate u = draft.truncate b
           \<and> u \<in> set (rows (snd (put_items None d i b)))
           \<and> (\<forall>r\<in>set (rows (snd (put_items None d i b))).
                 id_num r = i \<longrightarrow> draft.truncate r = draft.truncate b)))"
proof (cases "\<forall>r\<in>set (rows d). id_num r \<noteq> i")
  case True
  then show ?thesis using put_items_no_match [OF True, of b] by simp
next
  case False
  then have ex: "\<exists>r\<in>set (rows d). id_num r = i" by blast
  from put_items_match [OF ex, of b] obtain u where
    u: "fst (put_items None d i b) = \<lparr>status = 200, body = ItemJson u\<rparr>"
       "id_num u = i" "draft.truncate u = draft.truncate b"
       "u \<in> set (rows (snd (put_items None d i b)))" by blast
  have all: "\<forall>r\<in>set (rows (snd (put_items None d i b))).
                 id_num r = i \<longrightarrow> draft.truncate r = draft.truncate b"
  proof (intro ballI impI)
    fix r assume "r \<in> set (rows (snd (put_items None d i b)))" and ri: "id_num r = i"
    then have "r \<in> (\<lambda>r. if id_num r = i then replace_fields b r else r) ` set (rows d)"
      by (simp add: put_items_rows)
    then obtain r0 where "r = (if id_num r0 = i then replace_fields b r0 else r0)"
      by (rule imageE)
    with ri show "draft.truncate r = draft.truncate b"
      by (cases "id_num r0 = i") simp_all
  qed
  from u all False show ?thesis by auto
qed


theorem put_items_replaces_or_404_witness:
  "(\<exists>r\<in>set (rows shelf). id_num r = 7)
   \<and> (\<exists>u. fst (put_items None shelf 7 washer) = \<lparr>status = 200, body = ItemJson u\<rparr>
         \<and> id_num u = 7 \<and> draft.truncate u = washer)
   \<and> 8 \<notin> set (map id_num (rows shelf))
   \<and> put_items None shelf 8 washer =
        (\<lparr>status = 404, body = ErrorJson ''Item not found''\<rparr>, shelf)"
proof -
  have a: "\<exists>r\<in>set (rows shelf). id_num r = 7"
    by (simp add: shelf_def bolt_def crate_def)
  have b: "\<forall>r\<in>set (rows shelf). id_num r \<noteq> 8"
    by (simp add: shelf_def bolt_def crate_def)
  have t: "draft.truncate washer = washer"
    by (simp add: draft.truncate_def washer_def)
  have c: "8 \<notin> set (map id_num (rows shelf))"
    by (simp add: shelf_def bolt_def crate_def)
  show ?thesis
    using a b c t put_items_replaces_or_404 [of shelf 7 washer]
      put_items_replaces_or_404 [of shelf 8 washer]
    by auto
qed

lemma sql_insert_item_result:
  "sql_insert_item d v =
     ([draft.extend v (item.fields (next_id d))],
      d\<lparr>rows := rows d @ [draft.extend v (item.fields (next_id d))], next_id := next_id d + 1\<rparr>)"
  by (simp add: sql_insert_item_def Let_def)

lemma post_items_result:
  "post_items None d b =
     (\<lparr>status = 201, body = ItemJson (draft.extend (post_values b) (item.fields (next_id d)))\<rparr>,
      d\<lparr>rows := rows d @ [draft.extend (post_values b) (item.fields (next_id d))],
        next_id := next_id d + 1\<rparr>)"
  by (simp add: post_items_def pool_query_def sql_insert_item_result)

lemma extend_fields [simp]:
  "name (draft.extend v (item.fields n)) = name v"
  "description (draft.extend v (item.fields n)) = description v"
  "barcode (draft.extend v (item.fields n)) = barcode v"
  "quantity (draft.extend v (item.fields n)) = quantity v"
  "photo_url (draft.extend v (item.fields n)) = photo_url v"
  "missing (draft.extend v (item.fields n)) = missing v"
  "damaged (draft.extend v (item.fields n)) = damaged v"
  "notes (draft.extend v (item.fields n)) = notes v"
  "id_num (draft.extend v (item.fields n)) = n"
  by (simp_all add: draft.extend_def item.fields_def)

lemma get_items_result: "get_items None d = (\<lparr>status = 200, body = ItemsJson (rows d)\<rparr>, d)"
  by (simp add: get_items_def pool_query_def sql_select_items_def)

text \<open>
  Claim C4. When the insert of \<^verbatim>\<open>POST /items\<close> resolves, the response is 201 with the
  created row: its five required fields are those of the body; each of \<^verbatim>\<open>missing\<close>,
  \<^verbatim>\<open>damaged\<close> and \<^verbatim>\<open>notes\<close> is the body's value when the member is present (a given
  value, or \<^verbatim>\<open>null\<close>, which is stored as it is) and \<^verbatim>\<open>false\<close>, \<^verbatim>\<open>false\<close> and the empty
  string when the member is absent; its identity is the one the store assigned; and a
  following \<^verbatim>\<open>GET /items\<close> lists it together with all rows that were there before.
\<close>

theorem post_items_creates:
  "\<exists>row d'. post_items None d b = (\<lparr>status = 201, body = ItemJson row\<rparr>, d')
      \<and> name row = name b \<and> description row = description b \<and> barcode row = barcode b
      \<and> quantity row = quantity b \<and> photo_url row = photo_url b
      \<and> missing row =
            (case missing b of Absent \<Rightarrow> Some False | Null \<Rightarrow> None | Given m \<Rightarrow> Some m)
      \<and> damaged row =
            (case damaged b of Absent \<Rightarrow> Some False | Null \<Rightarrow> None | Given m \<Rightarrow> Some m)
      \<and> notes row =
            (case notes b of Absent \<Rightarrow> Some [] | Null \<Rightarrow> None | Given n \<Rightarrow> Some n)
      \<and> id_num row = next_id d
      \<and> (\<exists>listed. get_items None d' = (\<lparr>status = 200, body = ItemsJson listed\<rparr>, d')
            \<and> row \<in> set listed \<and> set (rows d) \<subseteq> set listed)"
  by (simp add: post_items_result get_items_result post_values_def with_default_def
        subset_insertI split: member.splits)

theorem post_items_creates_witness:
  "\<exists>row d'. post_items None shelf gasket = (\<lparr>status = 201, body = ItemJson row\<rparr>, d')
      \<and> name row = Some ''Gasket'' \<and> description row = None \<and> quantity row = 3
      \<and> missing row = None \<and> damaged row = Some False \<and> notes row = Some ''spare''
      \<and> id_num row = 10
      \<and> (\<exists>listed. get_items None d' = (\<lparr>status = 200, body = ItemsJson listed\<rparr>, d')
            \<and> row \<in> set listed \<and> bolt \<in> set listed)"
  using post_items_creates [of shelf gasket]
  by (auto simp: gasket_def shelf_def)

lemma find_first_filtered:
  "find P xs = Some x \<Longrightarrow> \<exists>rest. filter P xs = x # rest"
  by (induction xs) (auto split: if_splits)

lemma member_has_first:
  "x \<in> set xs \<Longrightarrow> P x \<Longrightarrow> \<exists>y. find P xs = Some y \<and> P y \<and> y \<in> set xs"
  by (induction xs) auto

lemma sql_update_quantity_returning:
  "fst (sql_update_quantity d delta i) =
     map (\<lambda>r. r\<lparr>quantity := quantity r + delta\<rparr>) (filter (\<lambda>r. id_num r = i) (rows d))"
  by (simp add: sql_update_quantity_def Let_def filter_map comp_def)

lemma sql_update_quantity_rows:
  "rows (snd (sql_update_quantity d delta i)) =
     map (\<lambda>r. if id_num r = i then r\<lparr>quantity := quantity r + delta\<rparr> else r) (rows d)"
  by (simp add: sql_update_quantity_def Let_def)

lemma sql_update_quantity_no_match:
  "\<forall>r\<in>set (rows d). id_num r \<noteq> i \<Longrightarrow> sql_update_quantity d delta i = ([], d)"
  by (simp add: sql_update_quantity_def Let_def map_idI filter_empty_conv)

lemma update_quantity_rows:
  "rows (snd (update_quantity None d i delta)) =
     map (\<lambda>r. if id_num r = i then r\<lparr>quantity := quantity r + delta\<rparr> else r) (rows d)"
  using sql_update_quantity_rows [of d delta i]
  by (cases "sql_update_quantity d delta i") (simp add: update_quantity_def pool_query_def)

lemma update_quantity_response:
  assumes "find (\<lambda>r. id_num r = i) (rows d) = Some r0"
  shows "fst (update_quantity None d i delta) =
           \<lparr>status = 200, body = SuccessJson (Some (r0\<lparr>quantity := quantity r0 + delta\<rparr>))\<rparr>"
proof -
  from find_first_filtered [OF assms] obtain rest where
    f: "filter (\<lambda>r. id_num r = i) (rows d) = r0 # rest" by blast
  obtain res d' where sq: "sql_update_quantity d delta i = (res, d')"
    by (cases "sql_update_quantity d delta i")
  have "res = fst (sql_update_quantity d delta i)" by (simp add: sq)
  then have "res = r0\<lparr>quantity := quantity r0 + delta\<rparr>
                # map (\<lambda>r. r\<lparr>quantity := quantity r + delta\<rparr>) rest"
    by (simp add: sql_update_quantity_returning f)
  then show ?thesis
    by (simp add: update_quantity_def pool_query_def sq)
qed

text \<open>
  Claim C5. For a stored row of identity \<open>i\<close> and any integer \<open>delta\<close>, when the store
  query of \<^verbatim>\<open>POST /items/:id/update-quantity\<close> resolves, the response is 200 with
  \<^verbatim>\<open>{success: true, item}\<close>, where \<^verbatim>\<open>item\<close> is the first row of that identity with
  \<open>delta\<close> added to its quantity; in the store every row of that identity has \<open>delta\<close>
  added to its quantity, with no lower bound, every other row is as before, and a
  following \<^verbatim>\<open>GET /items\<close> lists the rows so updated.
\<close>

theorem update_quantity_adds_delta:
  assumes "r \<in> set (rows d)" and "id_num r = i"
  shows "\<exists>r0 u d'. find (\<lambda>r. id_num r = i) (rows d) = Some r0
           \<and> update_quantity None d i delta = (\<lparr>status = 200, body = SuccessJson (Some u)\<rparr>, d')
           \<and> u = r0\<lparr>quantity := quantity r0 + delta\<rparr>
           \<and> quantity u = quantity r0 + delta
           \<and> length (rows d') = length (rows d)
           \<and> (\<forall>k<length (rows d).
                 rows d' ! k =
                   (if id_num (rows d ! k) = i
                    then (rows d ! k)\<lparr>quantity := quantity (rows d ! k) + delta\<rparr>
                    else rows d ! k))
           \<and> r\<lparr>quantity := quantity r + delta\<rparr> \<in> set (rows d')
           \<and> u \<in> set (rows d')
           \<and> get_items None d' = (\<lparr>status = 200, body = ItemsJson (rows d')\<rparr>, d')"
proof -
  from member_has_first [of r "rows d" "\<lambda>r. id_num r = i"] assms obtain r0 where
    r0: "find (\<lambda>r. id_num r = i) (rows d) = Some r0" "id_num r0 = i" "r0 \<in> set (rows d)"
    by blast
  let ?f = "\<lambda>r. if id_num r = i then r\<lparr>quantity := quantity r + delta\<rparr> else r"
  let ?out = "update_quantity None d i delta"
  have rows': "rows (snd ?out) = map ?f (rows d)" by (rule update_quantity_rows)
  have resp: "fst ?out = \<lparr>status = 200, body = SuccessJson (Some (r0\<lparr>quantity := quantity r0 + delta\<rparr>))\<rparr>"
    by (rule update_quantity_response [OF r0(1)])
  have whole: "?out = (fst ?out, snd ?out)" by simp
  have m1: "r\<lparr>quantity := quantity r + delta\<rparr> \<in> set (rows (snd ?out))"
  proof -
    have "?f r \<in> ?f ` set (rows d)" using assms(1) by (rule imageI)
    then show ?thesis using assms(2) by (simp add: rows')
  qed
  have m2: "r0\<lparr>quantity := quantity r0 + delta\<rparr> \<in> set (rows (snd ?out))"
  proof -
    have "?f r0 \<in> ?f ` set (rows d)" using r0(3) by (rule imageI)
    then show ?thesis using r0(2) by (simp add: rows')
  qed
  have nth: "\<forall>k<length (rows d). rows (snd ?out) ! k = ?f (rows d ! k)"
    by (simp add: rows')
  have len: "length (rows (snd ?out)) = length (rows d)" by (simp add: rows')
  show ?thesis
    apply (rule exI [of _ r0])
    apply (rule exI [of _ "r0\<lparr>quantity := quantity r0 + delta\<rparr>"])
    apply (rule exI [of _ "snd ?out"])
    using r0(1) resp m1 m2 nth len get_items_result [of "snd ?out"]
    by (simp add: prod_eq_iff)
qed

theorem update_quantity_adds_delta_witness:
  "bolt \<in> set (rows shelf) \<and> id_num bolt = 7 \<and> quantity bolt = 5
   \<and> (\<exists>u d'. update_quantity None shelf 7 (- 3) = (\<lparr>status = 200, body = SuccessJson (Some u)\<rparr>, d')
         \<and> quantity u = 2
         \<and> bolt\<lparr>quantity := 2\<rparr> \<in> set (rows d')
         \<and> get_items None d' = (\<lparr>status = 200, body = ItemsJson (rows d')\<rparr>, d'))"
proof -
  have a: "bolt \<in> set (rows shelf)" by (simp add: shelf_def)
  have b: "id_num bolt = 7" by (simp add: bolt_def)
  have c: "quantity bolt = 5" by (simp add: bolt_def)
  have f: "find (\<lambda>r. id_num r = 7) (rows shelf) = Some bolt"
    by (simp add: shelf_def bolt_def)
  from update_quantity_adds_delta [OF a b, of "- 3"] f c a b show ?thesis
    by auto
qed

text \<open>
  Claim C9. When no stored row has the given identity and the store query resolves,
  \<^verbatim>\<open>POST /items/:id/update-quantity\<close> answers 200 with \<^verbatim>\<open>{success: true}\<close> and no item,
  not 404 nor any other error status, and the store is as before.
\<close>

theorem update_quantity_unknown_id:
  assumes "\<forall>r\<in>set (rows d). id_num r \<noteq> i"
  shows "update_quantity None d i delta = (\<lparr>status = 200, body = SuccessJson None\<rparr>, d)
         \<and> status (fst (update_quantity None d i delta)) \<noteq> 404
         \<and> ok (fst (update_quantity None d i delta))"
  by (simp add: update_quantity_def pool_query_def sql_update_quantity_no_match [OF assms] ok_def)

theorem update_quantity_unknown_id_witness:
  "8 \<notin> set (map id_num (rows shelf))
   \<and> update_quantity None shelf 8 (- 3) = (\<lparr>status = 200, body = SuccessJson None\<rparr>, shelf)"
proof -
  have b: "\<forall>r\<in>set (rows shelf). id_num r \<noteq> 8"
    by (simp add: shelf_def bolt_def crate_def)
  have c: "8 \<notin> set (map id_num (rows shelf))"
    by (simp add: shelf_def bolt_def crate_def)
  from update_quantity_unknown_id [OF b, of "- 3"] c show ?thesis by simp
qed

section \<open>The dashboard: what the handlers do\<close>


lemma toggledItem_fields:
  "flag ty (toggledItem item ty) = Some (\<not> truthy (flag ty item))"
  "flag (other ty) (toggledItem item ty) = Some False"
  "notes (toggledItem item ty) = Some (if truthy (flag ty item) then [] else ''Updated status'')"
  "name (toggledItem item ty) = name item"
  "description (toggledItem item ty) = description item"
  "barcode (toggledItem item ty) = barcode item"
  "quantity (toggledItem item ty) = quantity item"
  "photo_url (toggledItem item ty) = photo_url item"
  "id_num (toggledItem item ty) = id_num item"
  by (cases ty; simp add: toggledItem_def flag_def other_def Let_def)+

lemma find_member:
  "x \<in> set xs \<Longrightarrow> \<exists>y. find (\<lambda>z. f z = f x) xs = Some y \<and> f y = f x \<and> y \<in> set xs"
  by (induction xs) auto

lemma updateItem_request:
  "\<exists>logs. snd (snd (updateItem fetch u c w)) = Fetch (PutItem (id_num u) u) # logs"
  by (simp add: updateItem_def Let_def split: prod.splits fetch_result.splits payload.splits)

text \<open>
  Claim C1. For every item of the local list, \<^verbatim>\<open>handleMissingOrDamaged\<close> called with its
  identity finds an item of that identity and sends, as its one \<^verbatim>\<open>PUT\<close>, the record
  built from the found item: the toggled flag is the negation of its previous value, the
  other flag is \<^verbatim>\<open>false\<close>, \<^verbatim>\<open>notes\<close> is \<^verbatim>\<open>"Updated status"\<close> when the flag is turned on and
  the empty string when it is turned off, and all other fields are those of the found
  item. In particular, toggling \<^verbatim>\<open>missing\<close> on an item that is damaged and not missing gives
  \<^verbatim>\<open>missing = true, damaged = false, notes = "Updated status"\<close>, and toggling the result
  again gives \<^verbatim>\<open>missing = false, notes = ""\<close>.
\<close>

theorem toggle_builds_record:
  assumes "item \<in> set (items c)"
  shows "\<exists>found u logs.
           find (\<lambda>x. id_num x = id_num item) (items c) = Some found
           \<and> found \<in> set (items c) \<and> id_num found = id_num item
           \<and> u = toggledItem found ty
           \<and> snd (snd (handleMissingOrDamaged fetch (id_num item) ty c w)) =
               Fetch (PutItem (id_num item) u) # logs
           \<and> flag ty u = Some (\<not> truthy (flag ty found))
           \<and> flag (other ty) u = Some False
           \<and> notes u = Some (if truthy (flag ty found) then [] else ''Updated status'')
           \<and> name u = name found \<and> description u = description found
           \<and> barcode u = barcode found \<and> quantity u = quantity found
           \<and> photo_url u = photo_url found \<and> id_num u = id_num found
           \<and> (truthy (damaged found) \<and> \<not> truthy (missing found) \<longrightarrow>
                missing (toggledItem found Missing) = Some True
                \<and> damaged (toggledItem found Missing) = Some False
                \<and> notes (toggledItem found Missing) = Some ''Updated status''
                \<and> missing (toggledItem (toggledItem found Missing) Missing) = Some False
                \<and> notes (toggledItem (toggledItem found Missing) Missing) = Some [])"
proof -
  from find_member [OF assms, of id_num] obtain found where
    f: "find (\<lambda>x. id_num x = id_num item) (items c) = Some found"
       "id_num found = id_num item" "found \<in> set (items c)" by blast
  from updateItem_request [of fetch "toggledItem found ty" c w] obtain logs where
    l: "snd (snd (updateItem fetch (toggledItem found ty) c w)) =
          Fetch (PutItem (id_num item) (toggledItem found ty)) # logs"
    by (auto simp: toggledItem_fields f(2))
  have h: "snd (snd (handleMissingOrDamaged fetch (id_num item) ty c w)) =
             Fetch (PutItem (id_num item) (toggledItem found ty)) # logs"
    by (simp add: handleMissingOrDamaged_def f(1) l)
  have again: "truthy (damaged found) \<and> \<not> truthy (missing found) \<longrightarrow>
                missing (toggledItem found Missing) = Some True
                \<and> damaged (toggledItem found Missing) = Some False
                \<and> notes (toggledItem found Missing) = Some ''Updated status''
                \<and> missing (toggledItem (toggledItem found Missing) Missing) = Some False
                \<and> notes (toggledItem (toggledItem found Missing) Missing) = Some []"
    by (simp add: toggledItem_def flag_def Let_def truthy_def)
  show ?thesis
    apply (rule exI [of _ found])
    apply (rule exI [of _ "toggledItem found ty"])
    apply (rule exI [of _ logs])
    using f h again by (simp add: toggledItem_fields)
qed

theorem toggle_builds_record_witness:
  "bolt \<in> set (items board) \<and> truthy (damaged bolt) \<and> \<not> truthy (missing bolt)
   \<and> (\<exists>u logs. snd (snd (handleMissingOrDamaged (api (Reachable None)) 7 Missing board shelf)) =
                  Fetch (PutItem 7 u) # logs
        \<and> missing u = Some True \<and> damaged u = Some False \<and> notes u = Some ''Updated status''
        \<and> missing (toggledItem u Missing) = Some False
        \<and> notes (toggledItem u Missing) = Some [])"
proof -
  have a: "bolt \<in> set (items board)" by (simp add: board_def)
  have b: "truthy (damaged bolt) \<and> \<not> truthy (missing bolt)" by (simp add: bolt_def truthy_def)
  have i: "id_num bolt = 7" by (simp add: bolt_def)
  have f: "find (\<lambda>x. id_num x = 7) (items board) = Some bolt"
    by (simp add: board_def bolt_def)
  from toggle_builds_record [OF a, of Missing "api (Reachable None)" shelf] a b i f
  show ?thesis by (auto simp: flag_def)
qed


lemma updateItem_failed:
  assumes "failed (fst (fetch (PutItem (id_num u) u) w))"
  shows "fst (updateItem fetch u c w) = c"
    and "one_request_then_logs (PutItem (id_num u) u) (snd (snd (updateItem fetch u c w)))"
  using assms
  by (auto simp: updateItem_def failed_def one_request_then_logs_def is_log_def Let_def
           split: prod.splits fetch_result.splits)

lemma addItem_failed:
  assumes "failed (fst (fetch (PostItem (newItem c)) w))"
  shows "fst (addItem fetch c w) = c"
    and "one_request_then_logs (PostItem (newItem c)) (snd (snd (addItem fetch c w)))"
  using assms
  by (auto simp: addItem_def failed_def one_request_then_logs_def is_log_def Let_def
           split: prod.splits fetch_result.splits)

text \<open>
  Claim C7. For \<^verbatim>\<open>updateItem\<close> and for \<^verbatim>\<open>addItem\<close>: when the fetch rejects or its response
  is not ok, the local list, the new-item draft and the editing state, indeed the whole
  view state, are as before, and the handler has made its one request and after it only
  written to \<^verbatim>\<open>console.error\<close>: there is no second request.
\<close>

theorem failed_fetch_changes_nothing:
  "(failed (fst (fetch (PutItem (id_num u) u) w)) \<longrightarrow>
      items (fst (updateItem fetch u c w)) = items c
      \<and> newItem (fst (updateItem fetch u c w)) = newItem c
      \<and> editingItem (fst (updateItem fetch u c w)) = editingItem c
      \<and> fst (updateItem fetch u c w) = c
      \<and> one_request_then_logs (PutItem (id_num u) u) (snd (snd (updateItem fetch u c w))))
   \<and> (failed (fst (fetch (PostItem (newItem c)) w)) \<longrightarrow>
      items (fst (addItem fetch c w)) = items c
      \<and> newItem (fst (addItem fetch c w)) = newItem c
      \<and> editingItem (fst (addItem fetch c w)) = editingItem c
      \<and> fst (addItem fetch c w) = c
      \<and> one_request_then_logs (PostItem (newItem c)) (snd (snd (addItem fetch c w))))"
  by (simp add: updateItem_failed addItem_failed)

lemma api_unreachable: "api (Unreachable e) req d = (FetchRejected e, d)"
  by (simp add: api_def)

lemma api_put: "api (Reachable fault) (PutItem i b) d =
    (FetchResolved (fst (put_items fault d i b)), snd (put_items fault d i b))"
  by (simp add: api_def split: prod.splits)

lemma api_post: "api (Reachable fault) (PostItem b) d =
    (FetchResolved (fst (post_items fault d (stringify b))),
     snd (post_items fault d (stringify b)))"
  by (simp add: api_def split: prod.splits)

lemma post_items_rejected:
  "post_items (Some msg) d b = (\<lparr>status = 500, body = ErrorJson msg\<rparr>, d)"
  by (simp add: post_items_def pool_query_def)

theorem failed_fetch_changes_nothing_witness:
  "failed (fst (api (Unreachable ''offline'') (PutItem (id_num crate) crate) shelf))
   \<and> updateItem (api (Unreachable ''offline'')) crate board shelf =
       (board, shelf,
        [Fetch (PutItem 9 crate),
         ConsoleError ''Error in updateItem:'' (LoggedError (FetchError ''offline''))])
   \<and> failed (fst (api (Reachable (Some ''db down'')) (PostItem (newItem board)) shelf))
   \<and> fst (addItem (api (Reachable (Some ''db down''))) board shelf) = board
   \<and> snd (snd (addItem (api (Reachable (Some ''db down''))) board shelf)) =
        [Fetch (PostItem washer),
         ConsoleError ''Error adding item:'' (LoggedText (ErrorJson ''db down'')),
         ConsoleError ''Error in addItem:'' (LoggedError (HttpError 500))]"
proof -
  have a: "failed (fst (api (Unreachable ''offline'') (PutItem (id_num crate) crate) shelf))"
    by (simp add: api_unreachable failed_def)
  have b: "failed (fst (api (Reachable (Some ''db down'')) (PostItem (newItem board)) shelf))"
    by (simp add: api_post post_items_rejected failed_def ok_def)
  have c: "snd (snd (updateItem (api (Unreachable ''offline'')) crate board shelf)) =
        [Fetch (PutItem 9 crate),
         ConsoleError ''Error in updateItem:'' (LoggedError (FetchError ''offline''))]"
    by (simp add: updateItem_def api_unreachable crate_def)
  have d: "fst (snd (updateItem (api (Unreachable ''offline'')) crate board shelf)) = shelf"
    by (simp add: updateItem_def api_unreachable)
  have e: "snd (snd (addItem (api (Reachable (Some ''db down''))) board shelf)) =
        [Fetch (PostItem washer),
         ConsoleError ''Error adding item:'' (LoggedText (ErrorJson ''db down'')),
         ConsoleError ''Error in addItem:'' (LoggedError (HttpError 500))]"
    by (simp add: addItem_def api_post post_items_rejected ok_def board_def)
  have t1: "fst (updateItem (api (Unreachable ''offline'')) crate board shelf) = board"
    using failed_fetch_changes_nothing [of "api (Unreachable ''offline'')" crate shelf board] a
    by blast
  have t2: "fst (addItem (api (Reachable (Some ''db down''))) board shelf) = board"
    using failed_fetch_changes_nothing [of "api (Reachable (Some ''db down''))" crate shelf board] b
    by blast
  have t3: "updateItem (api (Unreachable ''offline'')) crate board shelf =
       (board, shelf,
        [Fetch (PutItem 9 crate),
         ConsoleError ''Error in updateItem:'' (LoggedError (FetchError ''offline''))])"
    unfolding prod_eq_iff fst_conv snd_conv using t1 c d by blast
  from a b t2 t3 e show ?thesis by blast
qed

text \<open>
  Claim C10. On the success path of \<^verbatim>\<open>updateItem\<close> (an ok response whose body is the
  record \<open>updatedData\<close>), the local list keeps its length, every entry whose identity
  differs from that of \<open>updatedData\<close> is as before, every entry with that identity is
  \<open>updatedData\<close>, the editing state is cleared, and search text and draft are as before.
\<close>

theorem updateItem_success_frame:
  assumes "fetch (PutItem (id_num u) u) w = (FetchResolved res, w')"
    and "ok res" and "body res = ItemJson updatedData"
  shows "length (items (fst (updateItem fetch u c w))) = length (items c)
     \<and> (\<forall>k<length (items c).
           items (fst (updateItem fetch u c w)) ! k =
             (if id_num (items c ! k) = id_num updatedData then updatedData else items c ! k))
     \<and> editingItem (fst (updateItem fetch u c w)) = None
     \<and> search (fst (updateItem fetch u c w)) = search c
     \<and> newItem (fst (updateItem fetch u c w)) = newItem c"
  using assms by (simp add: updateItem_def Let_def)

theorem updateItem_success_frame_witness:
  "api (Reachable None) (PutItem (id_num (crate\<lparr>quantity := 3\<rparr>)) (crate\<lparr>quantity := 3\<rparr>)) shelf =
      (FetchResolved \<lparr>status = 200, body = ItemJson (crate\<lparr>quantity := 3\<rparr>)\<rparr>,
       shelf\<lparr>rows := [bolt, crate\<lparr>quantity := 3\<rparr>]\<rparr>)
   \<and> ok \<lparr>status = 200, body = ItemJson (crate\<lparr>quantity := 3\<rparr>)\<rparr>
   \<and> items (fst (updateItem (api (Reachable None)) (crate\<lparr>quantity := 3\<rparr>) board shelf)) ! 0 = bolt
   \<and> items (fst (updateItem (api (Reachable None)) (crate\<lparr>quantity := 3\<rparr>) board shelf)) ! 1 =
        crate\<lparr>quantity := 3\<rparr>
   \<and> editingItem (fst (updateItem (api (Reachable None)) (crate\<lparr>quantity := 3\<rparr>) board shelf)) = None"
proof -
  let ?u = "crate\<lparr>quantity := 3\<rparr>"
  let ?res = "\<lparr>status = 200, body = ItemJson ?u\<rparr>"
  have s: "sql_update_item shelf ?u 9 = ([?u], shelf\<lparr>rows := [bolt, ?u]\<rparr>)"
    by code_simp
  have i9: "id_num ?u = 9" by (simp add: crate_def)
  have a: "api (Reachable None) (PutItem (id_num ?u) ?u) shelf =
      (FetchResolved ?res, shelf\<lparr>rows := [bolt, ?u]\<rparr>)"
    by (simp add: api_put put_items_def pool_query_def i9 s)
  have b: "ok ?res" by (simp add: ok_def)
  have c: "body ?res = ItemJson ?u" by simp
  have l: "length (items board) = 2" "items board ! 0 = bolt" "items board ! 1 = crate"
    by (simp_all add: board_def)
  have i: "id_num bolt \<noteq> id_num ?u"
    by (simp add: bolt_def crate_def)
  note t = updateItem_success_frame
         [where fetch = "api (Reachable None)" and u = ?u and w = shelf and c = board, OF a b c]
  have e: "editingItem (fst (updateItem (api (Reachable None)) ?u board shelf)) = None"
    using t by blast
  have n0: "items (fst (updateItem (api (Reachable None)) ?u board shelf)) ! 0 = bolt"
    using t l i by simp
  have n1: "items (fst (updateItem (api (Reachable None)) ?u board shelf)) ! 1 = ?u"
    using t l i by simp
  from a b e n0 n1 show ?thesis by blast
qed


lemma put_items_stores_body:
  assumes "r \<in> set (rows d)" and "id_num r = i"
  shows "\<exists>u. fst (put_items None d i b) = \<lparr>status = 200, body = ItemJson u\<rparr>
           \<and> draft.truncate u = draft.truncate b
           \<and> u \<in> set (rows (snd (put_items None d i b)))"
  using put_items_match [of d i b] assms by blast

text \<open>
  Claim C8. A number \<open>v\<close> entered in the quantity field of the create form or of the edit
  form is stored in the draft as \<open>max 0 v\<close>, which is not negative. The API service does
  not check the quantity again: \<^verbatim>\<open>POST /items\<close> and \<^verbatim>\<open>PUT /items/:id\<close> store the
  quantity of the request body whatever its sign, and \<^verbatim>\<open>update-quantity\<close> stores the sum
  of the old quantity and the delta whatever its sign.
\<close>

theorem quantity_clamped_in_forms_only:
  "quantity (newItem (setNewQuantity v c)) = max 0 v
   \<and> 0 \<le> quantity (newItem (setNewQuantity v c))
   \<and> (editingItem c = Some e \<longrightarrow>
        (\<exists>e'. editingItem (setEditQuantity v c) = Some e'
           \<and> quantity e' = max 0 v \<and> 0 \<le> quantity e'))
   \<and> (\<exists>row d'. post_items None d p = (\<lparr>status = 201, body = ItemJson row\<rparr>, d')
          \<and> quantity row = quantity p \<and> row \<in> set (rows d'))
   \<and> (r \<in> set (rows d) \<and> id_num r = i \<longrightarrow>
        (\<exists>u. fst (put_items None d i b) = \<lparr>status = 200, body = ItemJson u\<rparr>
           \<and> quantity u = quantity b
           \<and> u \<in> set (rows (snd (put_items None d i b)))))
   \<and> (r \<in> set (rows d) \<and> id_num r = i \<longrightarrow>
        r\<lparr>quantity := quantity r + delta\<rparr> \<in> set (rows (snd (update_quantity None d i delta))))"
proof -
  have p1: "quantity (newItem (setNewQuantity v c)) = max 0 v"
    by (simp add: setNewQuantity_def)
  have p2: "editingItem c = Some e \<longrightarrow>
        (\<exists>e'. editingItem (setEditQuantity v c) = Some e'
           \<and> quantity e' = max 0 v \<and> 0 \<le> quantity e')"
    by (simp add: setEditQuantity_def)
  have p3: "\<exists>row d'. post_items None d p = (\<lparr>status = 201, body = ItemJson row\<rparr>, d')
          \<and> quantity row = quantity p \<and> row \<in> set (rows d')"
    by (simp add: post_items_result post_values_def)
  have p4: "r \<in> set (rows d) \<and> id_num r = i \<longrightarrow>
        (\<exists>u. fst (put_items None d i b) = \<lparr>status = 200, body = ItemJson u\<rparr>
           \<and> quantity u = quantity b
           \<and> u \<in> set (rows (snd (put_items None d i b))))"
  proof
    assume "r \<in> set (rows d) \<and> id_num r = i"
    then obtain u where u: "fst (put_items None d i b) = \<lparr>status = 200, body = ItemJson u\<rparr>"
      "draft.truncate u = draft.truncate b" "u \<in> set (rows (snd (put_items None d i b)))"
      using put_items_stores_body [of r d i b] by blast
    from u(2) have "quantity (draft.truncate u) = quantity (draft.truncate b)" by simp
    then have "quantity u = quantity b" by (simp add: draft.truncate_def)
    with u show "\<exists>u. fst (put_items None d i b) = \<lparr>status = 200, body = ItemJson u\<rparr>
           \<and> quantity u = quantity b
           \<and> u \<in> set (rows (snd (put_items None d i b)))" by blast
  qed
  have p5: "r \<in> set (rows d) \<and> id_num r = i \<longrightarrow>
        r\<lparr>quantity := quantity r + delta\<rparr> \<in> set (rows (snd (update_quantity None d i delta)))"
  proof
    assume a: "r \<in> set (rows d) \<and> id_num r = i"
    let ?f = "\<lambda>r. if id_num r = i then r\<lparr>quantity := quantity r + delta\<rparr> else r"
    from a have "?f r \<in> ?f ` set (rows d)" by blast
    with a show "r\<lparr>quantity := quantity r + delta\<rparr> \<in> set (rows (snd (update_quantity None d i delta)))"
      by (simp add: update_quantity_rows)
  qed
  from p1 p2 p3 p4 p5 show ?thesis by simp
qed

theorem quantity_clamped_in_forms_only_witness:
  "quantity (newItem (setNewQuantity (- 6) board)) = 0
   \<and> editingItem board = Some crate
   \<and> (\<exists>e'. editingItem (setEditQuantity (- 6) board) = Some e' \<and> quantity e' = 0)
   \<and> (\<exists>row d'. post_items None shelf (stringify washer) =
                   (\<lparr>status = 201, body = ItemJson row\<rparr>, d')
          \<and> quantity row = - 4 \<and> row \<in> set (rows d'))
   \<and> bolt \<in> set (rows shelf) \<and> id_num bolt = 7
   \<and> (\<exists>u. fst (put_items None shelf 7 washer) = \<lparr>status = 200, body = ItemJson u\<rparr>
           \<and> quantity u = - 4
           \<and> u \<in> set (rows (snd (put_items None shelf 7 washer))))
   \<and> bolt\<lparr>quantity := - 1\<rparr> \<in> set (rows (snd (update_quantity None shelf 7 (- 6))))"
proof -
  have a: "editingItem board = Some crate" by (simp add: board_def)
  have b: "bolt \<in> set (rows shelf) \<and> id_num bolt = 7" by (simp add: shelf_def bolt_def)
  have q: "quantity (stringify washer) = - 4" "quantity washer = - 4"
    "quantity bolt + - 6 = - 1"
    by (simp_all add: washer_def bolt_def stringify_def)
  note t = quantity_clamped_in_forms_only
      [of "- 6" board crate shelf "stringify washer" bolt 7 washer "- 6"]
  from t a b q show ?thesis by auto
qed







text \<open>
  For a lowering that works letter by letter, the lowered field contains the lowered query
  exactly when some stretch of the field equals the query up to the case of its letters.
\<close>

lemma letterwise_contains:
  assumes "\<And>s. toLowerCase s = map lowerChar s"
  shows "contains_ignoring_case toLowerCase field q =
           (\<exists>pre mid post. field = pre @ mid @ post \<and> toLowerCase mid = toLowerCase q)"
proof
  assume "contains_ignoring_case toLowerCase field q"
  then obtain pre post where
    "map lowerChar field = pre @ (map lowerChar q @ post)"
    by (auto simp: contains_ignoring_case_def assms)
  then obtain us vs where
    f: "field = us @ vs" and v: "map lowerChar q @ post = map lowerChar vs"
    by (auto simp: map_eq_append_conv)
  from v obtain mid ws where
    "vs = mid @ ws" and "map lowerChar q = map lowerChar mid"
    by (auto simp: append_eq_map_conv)
  with f have "field = us @ mid @ ws \<and> toLowerCase mid = toLowerCase q"
    by (simp add: assms)
  then show "\<exists>pre mid post. field = pre @ mid @ post \<and> toLowerCase mid = toLowerCase q"
    by blast
next
  assume "\<exists>pre mid post. field = pre @ mid @ post \<and> toLowerCase mid = toLowerCase q"
  then obtain pre mid post where
    "field = pre @ mid @ post" and "toLowerCase mid = toLowerCase q" by blast
  then have "toLowerCase field = toLowerCase pre @ toLowerCase q @ toLowerCase post"
    by (simp add: assms)
  then show "contains_ignoring_case toLowerCase field q"
    unfolding contains_ignoring_case_def by blast
qed




lemma board_all: "filteredItems lowerAscii (board\<lparr>search := []\<rparr>) = [bolt, crate]"
  by code_simp

lemma nameless_hidden: "filteredItems lowerAscii (board\<lparr>items := [nameless]\<rparr>) = []"
  by code_simp


section \<open>The status flags over a session\<close>


lemma exclusive_toggled: "exclusive (toggledItem item ty)"
  by (cases ty) (simp_all add: exclusive_def toggledItem_def Let_def truthy_def)

lemma put_items_reply:
  assumes "fst (put_items fault d i b) = \<lparr>status = s, body = ItemJson r\<rparr>"
  shows "id_num r = i \<and> same_flags b r"
proof (cases fault)
  case (Some msg)
  with assms show ?thesis by (simp add: put_items_rejected)
next
  case None
  obtain res d' where sq: "sql_update_item d b i = (res, d')"
    by (cases "sql_update_item d b i")
  have ret: "res = map (replace_fields b) (filter (\<lambda>r. id_num r = i) (rows d))"
    using sql_update_item_returning [of d b i] sq by simp
  show ?thesis
  proof (cases "filter (\<lambda>r. id_num r = i) (rows d)")
    case Nil
    with assms None sq ret show ?thesis
      by (simp add: put_items_def pool_query_def)
  next
    case (Cons r0 rest)
    then have "r0 \<in> set (filter (\<lambda>r. id_num r = i) (rows d))" by simp
    then have i: "id_num r0 = i" by simp
    from assms None sq ret Cons have "r = replace_fields b r0"
      by (simp add: put_items_def pool_query_def)
    with i show ?thesis by (simp add: replace_fields_def same_flags_def)
  qed
qed

lemma post_items_reply:
  assumes "fst (post_items fault d (stringify b)) = \<lparr>status = s, body = ItemJson r\<rparr>"
  shows "exclusive r = exclusive b"
proof (cases fault)
  case (Some msg)
  with assms show ?thesis by (simp add: post_items_rejected)
next
  case None
  with assms have "r = draft.extend (post_values (stringify b)) (item.fields (next_id d))"
    by (simp add: post_items_result)
  then show ?thesis
    by (simp add: exclusive_def post_values_def stringify_def with_default_def truthy_def
          split: option.splits)
qed

lemma same_flags_exclusive: "same_flags r r' \<Longrightarrow> exclusive r' = exclusive r"
  by (simp add: same_flags_def exclusive_def)

lemma list_all_replaced:
  "list_all P xs \<Longrightarrow> P r \<Longrightarrow> list_all P (map (\<lambda>x. if f x = f r then r else x) xs)"
  by (induction xs) simp_all

lemma updateItem_keeps_exclusive:
  assumes inv: "exclusive_within S c"
    and reply: "\<And>res w' r. fetch (PutItem (id_num u) u) w = (FetchResolved res, w') \<Longrightarrow>
                  body res = ItemJson r \<Longrightarrow> id_num r \<in> S \<longrightarrow> exclusive r"
  shows "exclusive_within S (fst (updateItem fetch u c w))"
proof -
  obtain fr w' where f: "fetch (PutItem (id_num u) u) w = (fr, w')"
    by (cases "fetch (PutItem (id_num u) u) w")
  show ?thesis
  proof (cases fr)
    case (FetchRejected e)
    with f inv show ?thesis by (simp add: updateItem_def)
  next
    case (FetchResolved res)
    show ?thesis
    proof (cases "ok res")
      case False
      with f FetchResolved inv show ?thesis by (simp add: updateItem_def)
    next
      case True
      show ?thesis
      proof (cases "body res")
        case (ItemJson r)
        from reply [of res w' r] f FetchResolved ItemJson
        have r: "id_num r \<in> S \<longrightarrow> exclusive r" by simp
        have "list_all (\<lambda>r. id_num r \<in> S \<longrightarrow> exclusive r)
                (map (\<lambda>item. if id_num item = id_num r then r else item) (items c))"
          using inv r by (intro list_all_replaced) (simp_all add: exclusive_within_def)
        with inv f FetchResolved True ItemJson show ?thesis
          by (simp add: updateItem_def exclusive_within_def)
      qed (use f FetchResolved True inv in \<open>simp_all add: updateItem_def\<close>)
    qed
  qed
qed

lemma addItem_keeps_exclusive:
  assumes inv: "exclusive_within S c"
    and reply: "\<And>res w' r. fetch (PostItem (newItem c)) w = (FetchResolved res, w') \<Longrightarrow>
                  body res = ItemJson r \<Longrightarrow> exclusive r"
  shows "exclusive_within S (fst (addItem fetch c w))"
proof -
  obtain fr w' where f: "fetch (PostItem (newItem c)) w = (fr, w')"
    by (cases "fetch (PostItem (newItem c)) w")
  show ?thesis
  proof (cases fr)
    case (FetchRejected e)
    with f inv show ?thesis by (simp add: addItem_def)
  next
    case (FetchResolved res)
    show ?thesis
    proof (cases "ok res")
      case False
      with f FetchResolved inv show ?thesis by (simp add: addItem_def)
    next
      case True
      show ?thesis
      proof (cases "body res")
        case (ItemJson r)
        from reply [of res w' r] f FetchResolved ItemJson have r: "exclusive r" by simp
        have e: "exclusive emptyDraft" by (simp add: exclusive_def emptyDraft_def truthy_def)
        from inv f FetchResolved True ItemJson r e show ?thesis
          by (simp add: addItem_def exclusive_within_def)
      qed (use f FetchResolved True inv in \<open>simp_all add: addItem_def\<close>)
    qed
  qed
qed

lemma api_put_reply:
  assumes "api net (PutItem i b) d = (FetchResolved res, d')" and "body res = ItemJson r"
  shows "id_num r = i \<and> same_flags b r"
proof (cases net)
  case (Unreachable e)
  with assms show ?thesis by (simp add: api_unreachable)
next
  case (Reachable fault)
  with assms have "fst (put_items fault d i b) = res" by (simp add: api_put)
  with assms(2) have "fst (put_items fault d i b) = \<lparr>status = status res, body = ItemJson r\<rparr>"
    by simp
  then show ?thesis by (rule put_items_reply)
qed

lemma api_post_reply:
  assumes "api net (PostItem b) d = (FetchResolved res, d')" and "body res = ItemJson r"
  shows "exclusive r = exclusive b"
proof (cases net)
  case (Unreachable e)
  with assms show ?thesis by (simp add: api_unreachable)
next
  case (Reachable fault)
  with assms have "fst (post_items fault d (stringify b)) = res" by (simp add: api_post)
  with assms(2) have
    "fst (post_items fault d (stringify b)) = \<lparr>status = status res, body = ItemJson r\<rparr>"
    by simp
  then show ?thesis by (rule post_items_reply)
qed

lemma save_keeps_exclusive:
  assumes "exclusive_within S c" and "id_num u \<in> S \<longrightarrow> exclusive u"
  shows "exclusive_within S (fst (updateItem (api net) u c d))"
proof (rule updateItem_keeps_exclusive [OF assms(1)])
  fix res w' r
  assume "api net (PutItem (id_num u) u) d = (FetchResolved res, w')" and "body res = ItemJson r"
  then have "id_num r = id_num u \<and> same_flags u r" by (rule api_put_reply)
  with assms(2) same_flags_exclusive [of u r] show "id_num r \<in> S \<longrightarrow> exclusive r"
    by simp
qed

lemma create_keeps_exclusive:
  assumes "exclusive_within S c"
  shows "exclusive_within S (fst (addItem (api net) c d))"
proof (rule addItem_keeps_exclusive [OF assms])
  fix res w' r
  assume "api net (PostItem (newItem c)) d = (FetchResolved res, w')" and "body res = ItemJson r"
  then have "exclusive r = exclusive (newItem c)" by (rule api_post_reply)
  with assms show "exclusive r" by (simp add: exclusive_within_def)
qed

lemma toggle_keeps_exclusive:
  assumes "exclusive_within S c"
  shows "exclusive_within S (fst (handleMissingOrDamaged (api net) i ty c d))"
proof (cases "find (\<lambda>item. id_num item = i) (items c)")
  case None
  with assms show ?thesis by (simp add: handleMissingOrDamaged_def)
next
  case (Some found)
  have "exclusive_within S (fst (updateItem (api net) (toggledItem found ty) c d))"
    using assms by (rule save_keeps_exclusive) (simp add: exclusive_toggled)
  with Some show ?thesis by (simp add: handleMissingOrDamaged_def)
qed


lemma filtered_member:
  assumes "k < length (filteredItems toLowerCase c)"
  shows "filteredItems toLowerCase c ! k \<in> set (items c)"
proof -
  from assms have "filteredItems toLowerCase c ! k \<in> set (filteredItems toLowerCase c)"
    by (rule nth_mem)
  then show ?thesis by (simp add: filteredItems_def)
qed

lemma startEditing_keeps_exclusive:
  assumes "exclusive_within S c" and "item \<in> set (items c)"
  shows "exclusive_within S (startEditing item c)"
  using assms by (simp add: exclusive_within_def startEditing_def list_all_iff)

lemma new_fields_keep_exclusive:
  assumes "exclusive_within S c"
  shows "exclusive_within S (setNewName v c)"
    and "exclusive_within S (setNewDescription v c)"
    and "exclusive_within S (setNewBarcode v c)"
    and "exclusive_within S (setNewQuantity n c)"
    and "exclusive_within S (setNewPhotoUrl v c)"
    and "exclusive_within S (setSearch v c)"
    and "exclusive_within S (cancelEditing c)"
  using assms
  by (simp_all add: exclusive_within_def exclusive_def setNewName_def setNewDescription_def
        setNewBarcode_def setNewQuantity_def setNewPhotoUrl_def setSearch_def cancelEditing_def)

lemma edit_fields_keep_exclusive:
  assumes "exclusive_within S c"
  shows "exclusive_within S (setEditName v c)"
    and "exclusive_within S (setEditDescription v c)"
    and "exclusive_within S (setEditBarcode v c)"
    and "exclusive_within S (setEditQuantity n c)"
    and "exclusive_within S (setEditNotes v c)"
  using assms
  by (cases "editingItem c";
      simp add: exclusive_within_def exclusive_def setEditName_def setEditDescription_def
        setEditBarcode_def setEditQuantity_def setEditNotes_def)+

lemma perform_keeps_exclusive:
  assumes inv: "exclusive_within S c"
  shows "exclusive_within S (fst (perform toLowerCase net a (c, d)))"
proof (cases a)
  case ClickAddItem
  with create_keeps_exclusive [OF inv, of net d] show ?thesis by (simp add: dropEvents_def)
next
  case (ClickEdit k)
  with inv filtered_member [of k toLowerCase c] show ?thesis
    by (simp add: onCard_def startEditing_keeps_exclusive)
next
  case (ClickMissing k)
  with inv toggle_keeps_exclusive [OF inv, of net _ Missing d] show ?thesis
    by (simp add: onCard_def dropEvents_def)
next
  case (ClickDamaged k)
  with inv toggle_keeps_exclusive [OF inv, of net _ Damaged d] show ?thesis
    by (simp add: onCard_def dropEvents_def)
next
  case ClickSave
  show ?thesis
  proof (cases "editingItem c")
    case None
    with ClickSave inv show ?thesis by (simp add: onEditForm_def)
  next
    case (Some e)
    with inv have "id_num e \<in> S \<longrightarrow> exclusive e" by (simp add: exclusive_within_def)
    with inv have "exclusive_within S (fst (updateItem (api net) e c d))"
      by (rule save_keeps_exclusive)
    with ClickSave Some inv show ?thesis by (simp add: onEditForm_def dropEvents_def)
  qed
qed (use inv in \<open>simp_all add: onEditForm_def new_fields_keep_exclusive edit_fields_keep_exclusive
        split: option.splits\<close>)

lemma run_keeps_exclusive:
  "exclusive_within S (fst s) \<Longrightarrow> exclusive_within S (fst (run toLowerCase steps s))"
proof (induction steps arbitrary: s)
  case Nil
  then show ?case by simp
next
  case (Cons step steps)
  obtain c d where s: "s = (c, d)" by (cases s)
  with Cons.prems have
    "exclusive_within S (fst (perform toLowerCase (fst step) (snd step) s))"
    by (simp add: perform_keeps_exclusive)
  then have
    "exclusive_within S
       (fst (run toLowerCase steps (perform toLowerCase (fst step) (snd step) s)))"
    by (rule Cons.IH)
  then show ?case by simp
qed

lemma typing_keeps_draft_flags:
  "typing a \<Longrightarrow> same_flags (newItem c) (newItem (fst (perform toLowerCase net a (c, d))))"
  by (cases a)
     (simp_all add: typing_def same_flags_def onEditForm_def setNewName_def setNewDescription_def
        setNewBarcode_def setNewQuantity_def setNewPhotoUrl_def setEditName_def
        setEditDescription_def setEditBarcode_def setEditQuantity_def setEditNotes_def
        split: option.splits)

lemma typing_keeps_edited_flags:
  "typing a \<Longrightarrow> editingItem c = Some e \<Longrightarrow>
           \<exists>e'. editingItem (fst (perform toLowerCase net a (c, d))) = Some e'
                 \<and> same_flags e e' \<and> id_num e' = id_num e"
  by (cases a)
     (simp_all add: typing_def same_flags_def onEditForm_def setNewName_def setNewDescription_def
        setNewBarcode_def setNewQuantity_def setNewPhotoUrl_def setEditName_def
        setEditDescription_def setEditBarcode_def setEditQuantity_def setEditNotes_def)

lemma put_items_same_flags:
  assumes "r \<in> set (rows d)" and "id_num r = i"
  shows "\<exists>u'. fst (put_items None d i u) = \<lparr>status = 200, body = ItemJson u'\<rparr>
           \<and> id_num u' = i \<and> same_flags u u'"
proof -
  from put_items_match [of d i u] assms obtain u' where
    u: "fst (put_items None d i u) = \<lparr>status = 200, body = ItemJson u'\<rparr>" by blast
  from put_items_reply [OF u] u show ?thesis by blast
qed

lemma post_items_same_truth:
  "\<exists>row d'. post_items None d (stringify b) = (\<lparr>status = 201, body = ItemJson row\<rparr>, d')
      \<and> truthy (missing row) = truthy (missing b)
      \<and> truthy (damaged row) = truthy (damaged b)"
  by (simp add: post_items_result post_values_def stringify_def with_default_def truthy_def
        split: option.splits)

text \<open>
  Claim C2. The record that \<^verbatim>\<open>handleMissingOrDamaged\<close> builds never has both flags set. For
  every set \<open>S\<close> of identities and every session of the dashboard in front of the API
  service (toggles, edits, saves, creates, searches, with any behaviour of the network
  and of the store at each step): if at most one flag is set in the draft and in every
  listed or edited record with an identity in \<open>S\<close>, then the same holds after the session.
  The other operations keep the flags they are given: typing in a form field leaves both
  flags of the draft and of the edited record as they are, \<^verbatim>\<open>PUT /items/:id\<close> answers with
  a record that has the flags of the record sent, and \<^verbatim>\<open>POST /items\<close> answers with a
  record whose flags are set exactly when those of the draft sent are.
\<close>

theorem exclusive_flags_kept:
  "exclusive (toggledItem item ty)
   \<and> (exclusive_within S c \<longrightarrow> exclusive_within S (fst (run toLowerCase steps (c, d))))
   \<and> (typing a \<longrightarrow>
        same_flags (newItem c) (newItem (fst (perform toLowerCase net a (c, d))))
        \<and> (editingItem c = Some e \<longrightarrow>
             (\<exists>e'. editingItem (fst (perform toLowerCase net a (c, d))) = Some e'
                   \<and> same_flags e e' \<and> id_num e' = id_num e)))
   \<and> (r \<in> set (rows d) \<and> id_num r = i \<longrightarrow>
        (\<exists>u'. fst (put_items None d i u) = \<lparr>status = 200, body = ItemJson u'\<rparr>
           \<and> id_num u' = i \<and> same_flags u u'))
   \<and> (\<exists>row d'. post_items None d (stringify b) =
                   (\<lparr>status = 201, body = ItemJson row\<rparr>, d')
          \<and> truthy (missing row) = truthy (missing b)
          \<and> truthy (damaged row) = truthy (damaged b))"
proof -
  have p2: "exclusive_within S c \<longrightarrow> exclusive_within S (fst (run toLowerCase steps (c, d)))"
    using run_keeps_exclusive [of S "(c, d)" toLowerCase steps] by simp
  have p3: "typing a \<longrightarrow>
        same_flags (newItem c) (newItem (fst (perform toLowerCase net a (c, d))))
        \<and> (editingItem c = Some e \<longrightarrow>
             (\<exists>e'. editingItem (fst (perform toLowerCase net a (c, d))) = Some e'
                   \<and> same_flags e e' \<and> id_num e' = id_num e))"
    using typing_keeps_draft_flags [of a c toLowerCase net d]
      typing_keeps_edited_flags [of a c e toLowerCase net d]
    by blast
  have p4: "r \<in> set (rows d) \<and> id_num r = i \<longrightarrow>
        (\<exists>u'. fst (put_items None d i u) = \<lparr>status = 200, body = ItemJson u'\<rparr>
           \<and> id_num u' = i \<and> same_flags u u')"
    using put_items_same_flags [of r d i u] by blast
  from exclusive_toggled [of item ty] p2 p3 p4 post_items_same_truth [of d b]
  show ?thesis by blast
qed

text \<open>
  A session on the example data: mark the bolt missing, clear the search, try to mark the
  crate damaged while offline, add the washer, and press Save while the store is down.
\<close>

lemma session_result:
  "map (\<lambda>r. (id_num r, missing r, damaged r))
     (items (fst (run lowerAscii [(Reachable None, ClickMissing 0), (Reachable None, TypeSearch []),
                       (Unreachable ''offline'', ClickDamaged 1), (Reachable None, ClickAddItem),
                       (Reachable (Some ''db down''), ClickSave)] (board, shelf)))) =
   [(7, Some True, Some False), (9, None, None), (10, Some False, Some True)]"
  by code_simp

theorem exclusive_flags_kept_witness:
  "exclusive_within {7, 10} board
   \<and> exclusive_within {7, 10}
        (fst (run lowerAscii [(Reachable None, ClickMissing 0), (Reachable None, TypeSearch []),
                   (Unreachable ''offline'', ClickDamaged 1), (Reachable None, ClickAddItem),
                   (Reachable (Some ''db down''), ClickSave)] (board, shelf)))
   \<and> typing (TypeNewQuantity (- 2))
   \<and> same_flags washer (newItem (fst (perform lowerAscii (Reachable None) (TypeNewQuantity (- 2)) (board, shelf))))
   \<and> editingItem board = Some crate
   \<and> (\<exists>e'. editingItem (fst (perform lowerAscii (Reachable None) (TypeNewQuantity (- 2)) (board, shelf))) = Some e'
         \<and> same_flags crate e')
   \<and> bolt \<in> set (rows shelf) \<and> id_num bolt = 7
   \<and> (\<exists>u'. fst (put_items None shelf 7 (toggledItem bolt Missing)) =
               \<lparr>status = 200, body = ItemJson u'\<rparr>
         \<and> same_flags (toggledItem bolt Missing) u')"
proof -
  have a: "exclusive_within {7, 10} board"
    by (simp add: exclusive_within_def exclusive_def truthy_def board_def bolt_def crate_def
          washer_def)
  have b: "typing (TypeNewQuantity (- 2))" by (simp add: typing_def)
  have c: "editingItem board = Some crate" "newItem board = washer" by (simp_all add: board_def)
  have d: "bolt \<in> set (rows shelf) \<and> id_num bolt = 7" by (simp add: shelf_def bolt_def)
  note t = exclusive_flags_kept
     [of bolt Missing "{7, 10}" board lowerAscii
         "[(Reachable None, ClickMissing 0), (Reachable None, TypeSearch []),
           (Unreachable ''offline'', ClickDamaged 1), (Reachable None, ClickAddItem),
           (Reachable (Some ''db down''), ClickSave)]"
         shelf "TypeNewQuantity (- 2)" "Reachable None" crate bolt 7 "toggledItem bolt Missing"
         washer]
  from t a b c d show ?thesis by (simp only: simp_thms) blast
qed

section \<open>Identities, and the first load\<close>

text \<open>
  The identity that \<^verbatim>\<open>POST /items\<close> assigns is new, updates leave the identities alone, and
  the load on mount shows the stored rows.
\<close>


lemma post_items_fresh_id:
  assumes "ids_assigned d"
  shows "id_num (draft.extend (post_values b) (item.fields (next_id d))) \<notin> id_num ` set (rows d)"
    and "ids_assigned (snd (post_items None d b))"
proof -
  from assms have below: "\<forall>r\<in>set (rows d). id_num r < next_id d"
    and dist: "distinct (map id_num (rows d))"
    by (simp_all add: ids_assigned_def list_all_iff)
  from below show fresh: "id_num (draft.extend (post_values b) (item.fields (next_id d)))
      \<notin> id_num ` set (rows d)"
    by auto
  from below have "\<forall>r\<in>set (rows d). id_num r < next_id d + 1" by auto
  with dist fresh show "ids_assigned (snd (post_items None d b))"
    by (simp add: post_items_result ids_assigned_def list_all_iff)
qed

lemma map_id_num_replaced:
  "map id_num (map (\<lambda>r. if id_num r = i then replace_fields b r else r) xs) = map id_num xs"
  by (induction xs) simp_all

lemma put_items_keeps_ids:
  assumes "ids_assigned d"
  shows "ids_assigned (snd (put_items None d i b))"
proof -
  have n: "next_id (snd (put_items None d i b)) = next_id d"
    by (cases "filter (\<lambda>r. id_num r = i) (map (\<lambda>r. if id_num r = i then replace_fields b r else r) (rows d))")
       (simp_all add: put_items_def pool_query_def sql_update_item_def Let_def)
  have m: "map id_num (rows (snd (put_items None d i b))) = map id_num (rows d)"
    by (simp only: put_items_rows map_id_num_replaced)
  from assms have "distinct (map id_num (rows d))"
    and "\<forall>x\<in>set (map id_num (rows d)). x < next_id d"
    by (simp_all add: ids_assigned_def list_all_iff)
  then have "distinct (map id_num (rows (snd (put_items None d i b))))"
    and "\<forall>x\<in>set (map id_num (rows (snd (put_items None d i b)))). x < next_id (snd (put_items None d i b))"
    by (simp_all only: m n)
  then show ?thesis by (simp add: ids_assigned_def list_all_iff)
qed

lemma fetchItems_loads:
  "fetchItems (api (Reachable None)) c d = (c\<lparr>items := rows d\<rparr>, d, [Fetch GetItems])"
  by (simp add: fetchItems_def api_def get_items_result ok_def)

lemma initialClient_exclusive: "exclusive_within S initialClient"
  by (simp add: exclusive_within_def initialClient_def emptyDraft_def exclusive_def truthy_def)


end
